theory Spec2Isabelle
  imports Complex_Main "HOL-Library.Sublist"
begin

section \<open>The OSRS flipping tool: a shallow embedding of \<open>osrs_flipper.py\<close>\<close>

text \<open>
  Python integers are modelled as \<open>int\<close>. Python floats are modelled as exact reals:
  rounding of the binary representation is left out, so \<open>x * 0.01\<close> is the real
  product with one hundredth. A raised exception is a value \<open>Inl e\<close> of a sum type;
  a normal return is \<open>Inr v\<close>.
\<close>

subsection \<open>Python primitives\<close>

datatype error = ZeroDivisionError | IndexError | ComplexValue

text \<open>
  \<open>ComplexValue\<close> is not an exception of the source: Python evaluates a negative
  float raised to the power 1.5 to a complex number. The real-valued model stops there.
\<close>

definition bind_err :: "error + 'a \<Rightarrow> ('a \<Rightarrow> error + 'b) \<Rightarrow> error + 'b" where
  "bind_err r f = (case r of Inl e \<Rightarrow> Inl e | Inr v \<Rightarrow> f v)"

text \<open>\<open>int(x)\<close> on a float truncates toward zero.\<close>

definition py_int :: "real \<Rightarrow> int" where
  "py_int x = (if 0 \<le> x then \<lfloor>x\<rfloor> else \<lceil>x\<rceil>)"

text \<open>\<open>a / b\<close>: true division raises on a zero divisor.\<close>

definition py_truediv :: "real \<Rightarrow> real \<Rightarrow> error + real" where
  "py_truediv a b = (if b = 0 then Inl ZeroDivisionError else Inr (a / b))"

text \<open>\<open>x ** 1.5\<close> on a float.\<close>

definition py_pow15 :: "real \<Rightarrow> error + real" where
  "py_pow15 x = (if x < 0 then Inl ComplexValue else Inr (x powr 1.5))"

text \<open>\<open>xs[a:b]\<close> for non-negative bounds, and \<open>xs[i]\<close> for a non-negative index.\<close>

definition py_slice :: "nat \<Rightarrow> nat \<Rightarrow> 'a list \<Rightarrow> 'a list" where
  "py_slice a b xs = drop a (take b xs)"

definition py_index :: "'a list \<Rightarrow> nat \<Rightarrow> error + 'a" where
  "py_index xs i = (if i < length xs then Inr (xs ! i) else Inl IndexError)"

text \<open>Truthiness of an optional integer: \<open>None\<close> and \<open>0\<close> are falsy.\<close>

definition truthy :: "int option \<Rightarrow> bool" where
  "truthy v = (case v of None \<Rightarrow> False | Some x \<Rightarrow> x \<noteq> 0)"

subsection \<open>Tax, bond conversion cost and required capital\<close>

definition calculate_ge_tax :: "int \<Rightarrow> int" where
  "calculate_ge_tax sell_price =
     (if sell_price \<le> 100 then 0 else py_int (real_of_int sell_price * 0.01))"

definition calculate_bond_conversion_cost :: "int \<Rightarrow> int" where
  "calculate_bond_conversion_cost price = py_int (real_of_int price * 0.10)"

definition calculate_required_capital :: "int \<Rightarrow> int \<Rightarrow> int \<Rightarrow> int \<Rightarrow> int" where
  "calculate_required_capital buy_price buy_limit ge_tax bond_conversion_cost =
     (let buy_cost = buy_price * buy_limit;
          total_cost = buy_cost + ge_tax + bond_conversion_cost
      in py_int (real_of_int total_cost * 1.05))"

definition calculate_expected_capital_after_flip :: "int \<Rightarrow> int \<Rightarrow> int \<Rightarrow> real \<Rightarrow> int" where
  "calculate_expected_capital_after_flip required_capital margin buy_limit low_volume_per_period =
     (let achievable_items = min buy_limit (py_int low_volume_per_period);
          profit = margin * achievable_items
      in required_capital + profit)"

subsection \<open>The opportunity score\<close>

definition profit_multiplier_of :: "real \<Rightarrow> real" where
  "profit_multiplier_of profit_per_trade =
     (if profit_per_trade > 1000000 then 2.0
      else if profit_per_trade > 500000 then 1.7
      else if profit_per_trade > 100000 then 1.4
      else 1.0)"

definition calculate_opportunity_score ::
  "real \<Rightarrow> int \<Rightarrow> int \<Rightarrow> int \<Rightarrow> int \<Rightarrow> int \<Rightarrow> error + real" where
  "calculate_opportunity_score margin_percentage high_volume low_volume price buy_limit reset_time =
     (let profit_per_trade = real_of_int price * (margin_percentage / 100) in
      if profit_per_trade < 100 then Inr 0
      else
        bind_err (py_truediv 86400 (real_of_int reset_time)) (\<lambda>periods_per_day.
        bind_err (py_truediv (real_of_int high_volume) periods_per_day) (\<lambda>high_volume_per_period.
        bind_err (py_truediv (real_of_int low_volume) periods_per_day) (\<lambda>low_volume_per_period.
        let potential_profit_per_day = profit_per_trade * real_of_int buy_limit * periods_per_day;
            min_volume = min high_volume low_volume;
            max_possible_trades_per_day = real_of_int buy_limit * periods_per_day
        in
        bind_err
          (if real_of_int min_volume < max_possible_trades_per_day then
             bind_err (py_truediv (real_of_int min_volume) max_possible_trades_per_day) (\<lambda>volume_factor.
             bind_err (py_pow15 volume_factor) (\<lambda>volume_factor.
             Inr (potential_profit_per_day * volume_factor)))
           else Inr potential_profit_per_day) (\<lambda>potential_profit_per_day.
        bind_err
          (if low_volume_per_period < real_of_int buy_limit then
             bind_err (py_truediv low_volume_per_period (real_of_int buy_limit)) (\<lambda>buy_limit_factor.
             bind_err (py_pow15 buy_limit_factor) (\<lambda>p.
             Inr (potential_profit_per_day * p)))
           else Inr potential_profit_per_day) (\<lambda>potential_profit_per_day.
        let profit_multiplier = profit_multiplier_of profit_per_trade;
            buy_limit_multiplier = 1.0 + real_of_int buy_limit / 5000
        in
        bind_err (py_truediv (min high_volume_per_period low_volume_per_period) (real_of_int buy_limit))
          (\<lambda>volume_ratio.
        let volume_multiplier = 1.0 + min volume_ratio 2.0 in
        Inr (potential_profit_per_day * profit_multiplier * buy_limit_multiplier * volume_multiplier))))))))"

subsection \<open>Historical statistics of one item\<close>

text \<open>
  One entry of the \<open>/24h\<close> table or of a \<open>/timeseries\<close> answer. \<open>None\<close> is a
  JSON null; a key that is absent reads as \<open>Some 0\<close> through the default of \<open>.get\<close>
  where the source gives one.
\<close>

record price_stats =
  avgHighPrice :: "int option"
  avgLowPrice :: "int option"
  highPriceVolume :: "int option"
  lowPriceVolume :: "int option"

record historical =
  avg_high :: real
  avg_low :: real
  high_std :: real
  low_std :: real
  high_5th :: int
  high_95th :: int
  low_5th :: int
  low_95th :: int
  avg_high_5th :: real
  avg_low_5th :: real
  avg_high_95th :: real
  avg_low_95th :: real
  avg_high_volume :: real
  avg_low_volume :: real
  data_points :: nat

text \<open>\<open>[p.get(k, 0) for p in item_data if p.get(k)]\<close>\<close>

fun truthy_values :: "('a \<Rightarrow> int option) \<Rightarrow> 'a list \<Rightarrow> int list" where
  "truthy_values f [] = []"
| "truthy_values f (p # ps) =
     (case f p of
        None \<Rightarrow> truthy_values f ps
      | Some x \<Rightarrow> if x \<noteq> 0 then x # truthy_values f ps else truthy_values f ps)"

text \<open>\<open>int(len(xs) * 0.05)\<close> and \<open>int(len(xs) * 0.95)\<close>\<close>

definition index_5th :: "nat \<Rightarrow> nat" where
  "index_5th n = nat (py_int (real n * 0.05))"

definition index_95th :: "nat \<Rightarrow> nat" where
  "index_95th n = nat (py_int (real n * 0.95))"

text \<open>\<open>x ** 0.5\<close> on a float.\<close>

definition py_sqrt :: "real \<Rightarrow> error + real" where
  "py_sqrt x = (if x < 0 then Inl ComplexValue else Inr (sqrt x))"

text \<open>The mean and the standard deviation of the middle range, lines 204 and 208.\<close>

definition middle_avg :: "int list \<Rightarrow> error + real" where
  "middle_avg prices =
     py_truediv
       (real_of_int (sum_list (py_slice (index_5th (length prices)) (index_95th (length prices)) prices)))
       (real (length prices) * 0.9)"

definition middle_std :: "int list \<Rightarrow> real \<Rightarrow> error + real" where
  "middle_std prices avg =
     bind_err
       (py_truediv
          (sum_list (map (\<lambda>x. (real_of_int x - avg) ^ 2)
             (py_slice (index_5th (length prices)) (index_95th (length prices)) prices)))
          (real (length prices) * 0.9))
       py_sqrt"

text \<open>\<open>sum(vs) / len(vs) if vs else 0\<close>\<close>

definition avg_volume :: "int list \<Rightarrow> error + real" where
  "avg_volume vs =
     (if vs \<noteq> [] then py_truediv (real_of_int (sum_list vs)) (real (length vs)) else Inr 0)"

text \<open>
  The body of the loop of \<open>get_7d_prices\<close> for one item, from the decoded samples on.
  \<open>Inr None\<close> is a \<open>continue\<close>: the item gets no entry.
\<close>

definition historical_stats :: "price_stats list \<Rightarrow> error + historical option" where
  "historical_stats item_data =
     (if item_data = [] then Inr None
      else
        let high_prices = truthy_values avgHighPrice item_data;
            low_prices = truthy_values avgLowPrice item_data
        in
        if high_prices = [] \<or> low_prices = [] then Inr None
        else
          let high_prices = sort high_prices;
              low_prices = sort low_prices;
              nh = length high_prices;
              nl = length low_prices
          in
          bind_err (py_index high_prices (index_5th nh)) (\<lambda>h5.
          bind_err (py_index high_prices (index_95th nh)) (\<lambda>h95.
          bind_err (py_index low_prices (index_5th nl)) (\<lambda>l5.
          bind_err (py_index low_prices (index_95th nl)) (\<lambda>l95.
          bind_err (py_truediv (real_of_int (sum_list (take (index_5th nl) low_prices)))
                      (real (index_5th nl))) (\<lambda>al5.
          bind_err (py_truediv (real_of_int (sum_list (take (index_5th nh) high_prices)))
                      (real (index_5th nh))) (\<lambda>ah5.
          bind_err (py_truediv (real_of_int (sum_list (drop (index_95th nl) low_prices)))
                      (real_of_int (int nl - int (index_95th nl)))) (\<lambda>al95.
          bind_err (py_truediv (real_of_int (sum_list (drop (index_95th nh) high_prices)))
                      (real_of_int (int nh - int (index_95th nh)))) (\<lambda>ah95.
          bind_err (middle_avg high_prices) (\<lambda>ah.
          bind_err (middle_avg low_prices) (\<lambda>al.
          bind_err (middle_std high_prices ah) (\<lambda>hs.
          bind_err (middle_std low_prices al) (\<lambda>ls.
          bind_err (avg_volume (truthy_values highPriceVolume item_data)) (\<lambda>ahv.
          bind_err (avg_volume (truthy_values lowPriceVolume item_data)) (\<lambda>alv.
          Inr (Some \<lparr>avg_high = ah, avg_low = al, high_std = hs, low_std = ls,
                      high_5th = h5, high_95th = h95, low_5th = l5, low_95th = l95,
                      avg_high_5th = ah5, avg_low_5th = al5,
                      avg_high_95th = ah95, avg_low_95th = al95,
                      avg_high_volume = ahv, avg_low_volume = alv,
                      data_points = length item_data\<rparr>))))))))))))))))"

type_synonym item_id = string

text \<open>
  \<open>get_7d_prices\<close>: \<open>fetch\<close> stands for the request and its decoding; \<open>None\<close> is
  a request that failed (the exception is caught, the item skipped) or an answer with
  no \<open>data\<close>.
\<close>

fun get_7d_loop ::
  "(item_id \<Rightarrow> price_stats list option) \<Rightarrow> item_id list \<Rightarrow> (item_id \<rightharpoonup> historical)
     \<Rightarrow> error + (item_id \<rightharpoonup> historical)" where
  "get_7d_loop fetch [] results = Inr results"
| "get_7d_loop fetch (i # ids) results =
     (case fetch i of
        None \<Rightarrow> get_7d_loop fetch ids results
      | Some item_data \<Rightarrow>
          (case historical_stats item_data of
             Inl e \<Rightarrow> Inl e
           | Inr None \<Rightarrow> get_7d_loop fetch ids results
           | Inr (Some h) \<Rightarrow> get_7d_loop fetch ids (results(i \<mapsto> h))))"

definition get_7d_prices ::
  "(item_id \<Rightarrow> price_stats list option) \<Rightarrow> item_id list \<Rightarrow> error + (item_id \<rightharpoonup> historical)" where
  "get_7d_prices fetch item_ids = get_7d_loop fetch item_ids Map.empty"

subsection \<open>The consistency check\<close>

definition is_price_consistent :: "int \<Rightarrow> int \<Rightarrow> historical option \<Rightarrow> bool" where
  "is_price_consistent current_high current_low historical_data =
     (case historical_data of
        None \<Rightarrow> False
      | Some h \<Rightarrow>
          let high_within_range = (\<bar>real_of_int current_high - avg_high h\<bar> \<le> 2 * high_std h);
              low_within_range = (\<bar>real_of_int current_low - avg_low h\<bar> \<le> 2 * low_std h);
              high_within_percentile = (high_5th h \<le> current_high \<and> current_high \<le> high_95th h);
              low_within_percentile = (low_5th h \<le> current_low \<and> current_low \<le> low_95th h)
          in high_within_range \<and> low_within_range \<and> high_within_percentile \<and> low_within_percentile)"

subsection \<open>The first pass: one item\<close>

record snapshot =
  high :: "int option"
  low :: "int option"

record item_info =
  info_name :: string
  info_buy_limit :: "int option"
  info_reset_time :: int

record opportunity =
  item_id :: item_id
  name :: string
  buy_limit :: int
  reset_time :: int
  buy_price :: int
  sell_price :: int
  ge_tax :: int
  bond_conversion_cost :: int
  daily_avg_high :: int
  daily_avg_low :: int
  high_volume :: int
  low_volume :: int
  margin :: int
  margin_percentage :: real
  profit_per_window :: int
  achievable_items :: int
  required_capital :: int
  expected_capital :: int
  raw_score :: real
  weekly_avg_high :: "real option"
  weekly_avg_low :: "real option"
  score :: "real option"

text \<open>The counters of the analysis, one for each way an item is dropped.\<close>

datatype drop_reason =
  Skipped_items
| Unrealistic_price_items
| Low_volume_items
| Low_margin_items
| Missing_buy_limit_items
| Insufficient_cash_items
| Low_profit_items

datatype outcome = Dropped drop_reason | Appended opportunity

text \<open>\<open>self.item_names.get(item_id, {'name': 'Unknown', 'buy_limit': None, 'reset_time': 14400})\<close>\<close>

definition item_info_of :: "(item_id \<rightharpoonup> item_info) \<Rightarrow> item_id \<Rightarrow> item_info" where
  "item_info_of item_names i =
     (case item_names i of
        Some info \<Rightarrow> info
      | None \<Rightarrow> \<lparr>info_name = ''Unknown'', info_buy_limit = None, info_reset_time = 14400\<rparr>)"

text \<open>\<open>available_cash and required_capital > available_cash\<close>\<close>

definition exceeds_cash :: "int option \<Rightarrow> int \<Rightarrow> bool" where
  "exceeds_cash available_cash required =
     (case available_cash of
        None \<Rightarrow> False
      | Some cash \<Rightarrow> cash \<noteq> 0 \<and> required > cash)"

text \<open>
  The body of the first loop of \<open>analyze_flipping_opportunities\<close> (lines 301 to 411) for
  one entry \<open>(i, data)\<close> of \<open>latest_prices\<close>.
\<close>

definition evaluate_item ::
  "int \<Rightarrow> real \<Rightarrow> int option \<Rightarrow> (item_id \<rightharpoonup> price_stats) \<Rightarrow> (item_id \<rightharpoonup> item_info)
     \<Rightarrow> item_id \<Rightarrow> snapshot \<Rightarrow> error + outcome" where
  "evaluate_item min_volume min_margin available_cash daily_prices item_names i data =
     (case daily_prices i of
        None \<Rightarrow> Inr (Dropped Skipped_items)
      | Some daily_data \<Rightarrow>
     (case high data of
        None \<Rightarrow> Inr (Dropped Skipped_items)
      | Some current_high \<Rightarrow>
     (case low data of
        None \<Rightarrow> Inr (Dropped Skipped_items)
      | Some current_low \<Rightarrow>
     if current_high \<le> 0 \<or> current_low \<le> 0 then Inr (Dropped Skipped_items)
     else
     bind_err (py_truediv (real_of_int (current_high - current_low)) (real_of_int current_low))
       (\<lambda>current_spread.
     if current_spread > 0.5 then Inr (Dropped Unrealistic_price_items)
     else
     (case avgHighPrice daily_data of
        None \<Rightarrow> Inr (Dropped Skipped_items)
      | Some daily_high \<Rightarrow>
     (case avgLowPrice daily_data of
        None \<Rightarrow> Inr (Dropped Skipped_items)
      | Some daily_low \<Rightarrow>
     if daily_high \<le> 0 \<or> daily_low \<le> 0 then Inr (Dropped Skipped_items)
     else
     (case highPriceVolume daily_data of
        None \<Rightarrow> Inr (Dropped Low_volume_items)
      | Some high_vol \<Rightarrow>
     (case lowPriceVolume daily_data of
        None \<Rightarrow> Inr (Dropped Low_volume_items)
      | Some low_vol \<Rightarrow>
     if high_vol < min_volume \<or> low_vol < min_volume then Inr (Dropped Low_volume_items)
     else
     let ge_tax = calculate_ge_tax current_high;
         is_bond = (i = ''13190'');
         bond_conversion_cost = (if is_bond then calculate_bond_conversion_cost current_high else 0);
         margin = current_high - current_low - ge_tax - bond_conversion_cost
     in
     bind_err (py_truediv (real_of_int margin) (real_of_int current_low)) (\<lambda>q.
     let margin_percentage = q * 100 in
     if margin_percentage < min_margin then Inr (Dropped Low_margin_items)
     else
     let item_info = item_info_of item_names i;
         item_name = info_name item_info;
         reset_time = info_reset_time item_info
     in
     (case info_buy_limit item_info of
        None \<Rightarrow> Inr (Dropped Missing_buy_limit_items)
      | Some limit \<Rightarrow>
     let required_capital = calculate_required_capital current_low limit ge_tax bond_conversion_cost in
     if exceeds_cash available_cash required_capital then Inr (Dropped Insufficient_cash_items)
     else
     bind_err (py_truediv 86400 (real_of_int reset_time)) (\<lambda>periods_per_day.
     bind_err (py_truediv (real_of_int high_vol) periods_per_day) (\<lambda>high_volume_per_period.
     bind_err (py_truediv (real_of_int low_vol) periods_per_day) (\<lambda>low_volume_per_period.
     let achievable_items = min limit (py_int low_volume_per_period);
         achievable_profit = margin * achievable_items;
         expected_capital =
           calculate_expected_capital_after_flip required_capital margin limit low_volume_per_period
     in
     bind_err (calculate_opportunity_score margin_percentage high_vol low_vol current_high
                 limit reset_time) (\<lambda>score.
     if score = 0 then Inr (Dropped Low_profit_items)
     else
       Inr (Appended
         \<lparr>item_id = i, name = item_name, buy_limit = limit, reset_time = reset_time,
          buy_price = current_low, sell_price = current_high, ge_tax = ge_tax,
          bond_conversion_cost = bond_conversion_cost,
          daily_avg_high = daily_high, daily_avg_low = daily_low,
          high_volume = high_vol, low_volume = low_vol,
          margin = margin, margin_percentage = margin_percentage,
          profit_per_window = achievable_profit, achievable_items = achievable_items,
          required_capital = required_capital, expected_capital = expected_capital,
          raw_score = score,
          weekly_avg_high = None, weekly_avg_low = None, score = None\<rparr>)))))))))))))))"

subsection \<open>The first pass: all items\<close>

text \<open>
  \<open>latest_prices\<close> is a dictionary read in insertion order: an association list.
  The loop stops at the first exception.
\<close>

fun collect_opportunities ::
  "int \<Rightarrow> real \<Rightarrow> int option \<Rightarrow> (item_id \<rightharpoonup> price_stats) \<Rightarrow> (item_id \<rightharpoonup> item_info)
     \<Rightarrow> (item_id \<times> snapshot) list \<Rightarrow> opportunity list \<Rightarrow> (drop_reason \<Rightarrow> nat)
     \<Rightarrow> error + (opportunity list \<times> (drop_reason \<Rightarrow> nat))" where
  "collect_opportunities mv mm cash daily names [] opportunities counts = Inr (opportunities, counts)"
| "collect_opportunities mv mm cash daily names ((i, data) # rest) opportunities counts =
     (case evaluate_item mv mm cash daily names i data of
        Inl e \<Rightarrow> Inl e
      | Inr (Dropped r) \<Rightarrow>
          collect_opportunities mv mm cash daily names rest opportunities (counts(r := counts r + 1))
      | Inr (Appended opp) \<Rightarrow>
          collect_opportunities mv mm cash daily names rest (opportunities @ [opp]) counts)"

text \<open>
  \<open>opportunities.sort(key=lambda x: x['raw_score'], reverse=True)\<close>: a stable sort,
  descending by raw score.
\<close>

definition rank :: "opportunity list \<Rightarrow> opportunity list" where
  "rank opportunities = sort_key (\<lambda>opp. - raw_score opp) opportunities"

subsection \<open>Selection with replacement\<close>

text \<open>
  The state of the second half of \<open>analyze_flipping_opportunities\<close>. \<open>requested\<close> is
  not a variable of the source: it records, in order, the item ids handed to
  \<open>get_7d_prices\<close>, the requests the run makes.
\<close>

record selection =
  filtered_opportunities :: "opportunity list"
  filtered_count :: nat
  inconsistent_price_items :: nat
  requested :: "item_id list"

text \<open>
  \<open>opp['weekly_avg_high'] = historical['avg_high']\<close> and the same for the low price.
  The source reaches these lines only with a record that passed the check, so with one
  that is present.
\<close>

definition add_weekly :: "historical option \<Rightarrow> opportunity \<Rightarrow> opportunity" where
  "add_weekly historical_data opp =
     (case historical_data of
        None \<Rightarrow> opp
      | Some h \<Rightarrow> opp\<lparr>weekly_avg_high := Some (avg_high h), weekly_avg_low := Some (avg_low h)\<rparr>)"

text \<open>The loop over the top 20 (lines 426 to 459): it counts its rejects in both counters.\<close>

fun filter_top :: "(item_id \<rightharpoonup> historical) \<Rightarrow> opportunity list \<Rightarrow> selection \<Rightarrow> selection" where
  "filter_top historical_data [] st = st"
| "filter_top historical_data (opp # rest) st =
     (let historical = historical_data (item_id opp) in
      if \<not> is_price_consistent (sell_price opp) (buy_price opp) historical
      then filter_top historical_data rest
             (st\<lparr>inconsistent_price_items := inconsistent_price_items st + 1,
                 filtered_count := filtered_count st + 1\<rparr>)
      else filter_top historical_data rest
             (st\<lparr>filtered_opportunities := filtered_opportunities st @ [add_weekly historical opp]\<rparr>))"

text \<open>The loop over the first replacements (lines 468 to 500).\<close>

fun filter_replacements ::
  "(item_id \<rightharpoonup> historical) \<Rightarrow> opportunity list \<Rightarrow> selection \<Rightarrow> selection" where
  "filter_replacements historical_data [] st = st"
| "filter_replacements historical_data (opp # rest) st =
     (let historical = historical_data (item_id opp) in
      if \<not> is_price_consistent (sell_price opp) (buy_price opp) historical
      then filter_replacements historical_data rest
             (st\<lparr>inconsistent_price_items := inconsistent_price_items st + 1\<rparr>)
      else filter_replacements historical_data rest
             (st\<lparr>filtered_opportunities := filtered_opportunities st @ [add_weekly historical opp]\<rparr>))"

text \<open>The loop over a later batch (lines 512 to 547), which breaks at 20 accepted.\<close>

fun filter_batch :: "(item_id \<rightharpoonup> historical) \<Rightarrow> opportunity list \<Rightarrow> selection \<Rightarrow> selection" where
  "filter_batch historical_data [] st = st"
| "filter_batch historical_data (opp # rest) st =
     (let historical = historical_data (item_id opp) in
      if \<not> is_price_consistent (sell_price opp) (buy_price opp) historical
      then filter_batch historical_data rest
             (st\<lparr>inconsistent_price_items := inconsistent_price_items st + 1\<rparr>)
      else
        let st' = st\<lparr>filtered_opportunities := filtered_opportunities st @ [add_weekly historical opp]\<rparr>
        in if length (filtered_opportunities st') \<ge> 20 then st'
           else filter_batch historical_data rest st')"

text \<open>The \<open>while\<close> loop of lines 503 to 549.\<close>

function more_replacements ::
  "(item_id \<Rightarrow> price_stats list option) \<Rightarrow> opportunity list \<Rightarrow> selection \<Rightarrow> error + selection" where
  "more_replacements fetch opportunities st =
     (if length (filtered_opportunities st) < 20 \<and> length opportunities > 20 + filtered_count st
      then
        let next_batch_start = 20 + filtered_count st;
            next_batch_end = min (next_batch_start + 5) (length opportunities);
            next_batch = py_slice next_batch_start next_batch_end opportunities;
            next_batch_ids = map item_id next_batch
        in
        (case get_7d_prices fetch next_batch_ids of
           Inl e \<Rightarrow> Inl e
         | Inr next_batch_data \<Rightarrow>
             more_replacements fetch opportunities
               ((filter_batch next_batch_data next_batch
                   (st\<lparr>requested := requested st @ next_batch_ids\<rparr>))
                \<lparr>filtered_count := filtered_count st + length next_batch\<rparr>))
      else Inr st)"
  by pat_completeness auto

termination more_replacements
  by (relation "measure (\<lambda>(fetch, opportunities, st). length opportunities - (20 + filtered_count st))")
     (auto simp add: py_slice_def)

text \<open>Lines 413 to 549: the top 20, their replacements, and the later batches.\<close>

definition select_opportunities ::
  "(item_id \<Rightarrow> price_stats list option) \<Rightarrow> opportunity list \<Rightarrow> error + selection" where
  "select_opportunities fetch opportunities =
     (let top_opportunities = take 20 opportunities;
          item_ids = map item_id top_opportunities
      in
      case get_7d_prices fetch item_ids of
        Inl e \<Rightarrow> Inl e
      | Inr historical_data \<Rightarrow>
          let st = filter_top historical_data top_opportunities
                     \<lparr>filtered_opportunities = [], filtered_count = 0,
                      inconsistent_price_items = 0, requested = item_ids\<rparr>
          in
          if filtered_count st > 0 then
            let replacement_opportunities = py_slice 20 (20 + filtered_count st) opportunities;
                replacement_ids = map item_id replacement_opportunities
            in
            (case get_7d_prices fetch replacement_ids of
               Inl e \<Rightarrow> Inl e
             | Inr replacement_data \<Rightarrow>
                 more_replacements fetch opportunities
                   (filter_replacements replacement_data replacement_opportunities
                      (st\<lparr>requested := requested st @ replacement_ids\<rparr>)))
          else Inr st)"

text \<open>Lines 551 to 555: the scores on the scale 0 to 100.\<close>

definition normalize_scores :: "opportunity list \<Rightarrow> error + opportunity list" where
  "normalize_scores filtered =
     (if filtered \<noteq> [] then
        let max_score = Max (set (map raw_score filtered)) in
        if max_score = 0 then Inl ZeroDivisionError
        else Inr (map (\<lambda>opp. opp\<lparr>score := Some (raw_score opp / max_score * 100)\<rparr>) filtered)
      else Inr [])"

subsection \<open>The analysis\<close>

text \<open>
  What a run of \<open>analyze_flipping_opportunities\<close> yields: the list it returns, the
  counters it prints, whether it prints the two lines about the available cash, and the
  requests for 7-day histories it made.
\<close>

record analysis =
  returned :: "opportunity list"
  dropped :: "drop_reason \<Rightarrow> nat"
  inconsistent :: nat
  cash_lines :: bool
  history_requests :: "item_id list"

definition analyze_flipping_opportunities ::
  "(item_id \<times> snapshot) list \<Rightarrow> (item_id \<rightharpoonup> price_stats) \<Rightarrow> (item_id \<rightharpoonup> item_info)
     \<Rightarrow> (item_id \<Rightarrow> price_stats list option)
     \<Rightarrow> int \<Rightarrow> real \<Rightarrow> int option \<Rightarrow> error + analysis" where
  "analyze_flipping_opportunities latest_prices daily_prices item_names fetch
       min_volume min_margin available_cash =
     (case collect_opportunities min_volume min_margin available_cash daily_prices item_names
             latest_prices [] (\<lambda>r. 0) of
        Inl e \<Rightarrow> Inl e
      | Inr (opportunities, counts) \<Rightarrow>
          (case select_opportunities fetch (rank opportunities) of
             Inl e \<Rightarrow> Inl e
           | Inr st \<Rightarrow>
               (case normalize_scores (filtered_opportunities st) of
                  Inl e \<Rightarrow> Inl e
                | Inr result \<Rightarrow>
                    Inr \<lparr>returned = result, dropped = counts,
                         inconsistent = inconsistent_price_items st,
                         cash_lines = truthy available_cash,
                         history_requests = requested st\<rparr>)))"

subsection \<open>The statistics as the specification words them\<close>

text \<open>
  The arithmetic mean and the population standard deviation of a list of prices, and
  the middle slice \<open>[floor(n * 0.05), floor(n * 0.95))\<close> of a list of length \<open>n\<close>.
  These three follow the specification, not the source; they are what the source's
  \<open>middle_avg\<close> and \<open>middle_std\<close> are compared with.
\<close>

definition spec_middle_slice :: "int list \<Rightarrow> int list" where
  "spec_middle_slice prices =
     drop (nat \<lfloor>real (length prices) * 0.05\<rfloor>) (take (nat \<lfloor>real (length prices) * 0.95\<rfloor>) prices)"

definition spec_mean :: "int list \<Rightarrow> real" where
  "spec_mean xs = real_of_int (sum_list xs) / real (length xs)"

definition spec_population_std :: "int list \<Rightarrow> real" where
  "spec_population_std xs =
     sqrt (sum_list (map (\<lambda>x. (real_of_int x - spec_mean xs) ^ 2) xs) / real (length xs))"

section \<open>Properties\<close>

subsection \<open>Python primitives\<close>

lemma bind_err_simps [simp]:
  "bind_err (Inl e) f = Inl e"
  "bind_err (Inr v) f = f v"
  by (simp_all add: bind_err_def)

lemma py_int_nonneg: "0 \<le> x \<Longrightarrow> py_int x = \<lfloor>x\<rfloor>"
  by (simp add: py_int_def)

lemma floor_hundredth: "\<lfloor>real_of_int n * 0.01\<rfloor> = n div 100"
proof -
  have "real_of_int n * 0.01 = real_of_int n / real_of_int 100" by simp
  then show ?thesis by (simp only: floor_divide_of_int_eq)
qed

lemma floor_one_and_a_twentieth: "\<lfloor>real_of_int n * 1.05\<rfloor> = 21 * n div 20"
proof -
  have "real_of_int n * 1.05 = real_of_int (21 * n) / real_of_int 20" by simp
  then show ?thesis by (simp only: floor_divide_of_int_eq)
qed

subsection \<open>The tax\<close>

text \<open>
  Claim C8. For every sale price (a positive integer in particular) the tax is 0 up to
  100 and the floor of one hundredth of the price above 100, which is the integer
  quotient by 100; the tax on 100 is 0 and the tax on 101 is 1.
\<close>

theorem ge_tax_floor:
  "calculate_ge_tax sp = (if sp \<le> 100 then 0 else \<lfloor>real_of_int sp * 0.01\<rfloor>)
   \<and> calculate_ge_tax sp = (if sp \<le> 100 then 0 else sp div 100)
   \<and> calculate_ge_tax 100 = 0 \<and> calculate_ge_tax 101 = 1"
  using floor_hundredth [of sp] by (simp add: calculate_ge_tax_def py_int_def)

theorem ge_tax_floor_witness:
  "calculate_ge_tax 250 = 2 \<and> calculate_ge_tax 99 = 0 \<and> calculate_ge_tax 101 = 1"
  using ge_tax_floor [of 250] ge_tax_floor [of 99] by simp

subsection \<open>The required capital\<close>

text \<open>
  Claim C3, as stated: the required capital is the ceiling of 1.05 times the total
  cost. It is not: \<open>int\<close> truncates, so at a price of 1, a limit of 1 and no tax
  the source returns 1, where the ceiling of 1.05 is 2.
\<close>

theorem required_capital_not_ceiling:
  "calculate_required_capital 1 1 0 0 = 1
   \<and> calculate_required_capital 1 1 0 0 \<noteq> \<lceil>1.05 * real_of_int (1 * 1 + 0 + 0)\<rceil>"
  by (simp add: calculate_required_capital_def py_int_def)

text \<open>
  Claim C3, amended: for a total cost that is not negative, the required capital is the
  floor of 1.05 times the total cost, the integer quotient of 21 times the cost by 20:
  it is rounded down, so it never exceeds the product.
\<close>

theorem required_capital_floor:
  assumes "0 \<le> price * limit + tax + bond"
  shows "calculate_required_capital price limit tax bond
           = \<lfloor>1.05 * real_of_int (price * limit + tax + bond)\<rfloor>
         \<and> calculate_required_capital price limit tax bond
           = 21 * (price * limit + tax + bond) div 20
         \<and> real_of_int (calculate_required_capital price limit tax bond)
           \<le> 1.05 * real_of_int (price * limit + tax + bond)"
proof -
  let ?t = "price * limit + tax + bond"
  have "0 \<le> real_of_int ?t" using assms by (simp only: of_int_0_le_iff)
  then have nonneg: "0 \<le> real_of_int ?t * 1.05" by (rule mult_nonneg_nonneg) simp
  have eq: "calculate_required_capital price limit tax bond = \<lfloor>real_of_int ?t * 1.05\<rfloor>"
    unfolding calculate_required_capital_def Let_def by (rule py_int_nonneg [OF nonneg])
  have "real_of_int \<lfloor>real_of_int ?t * 1.05\<rfloor> \<le> real_of_int ?t * 1.05" by (rule of_int_floor_le)
  with eq floor_one_and_a_twentieth [of ?t] show ?thesis by (simp add: mult.commute)
qed

theorem required_capital_floor_witness:
  "(0::int) \<le> 100 * 3 + 1 + 0 \<and> calculate_required_capital 100 3 1 0 = 316"
  using required_capital_floor [of 100 3 1 0] by simp

subsection \<open>The consistency check\<close>

text \<open>
  Claim C5. The check returns false when the historical record is absent; with a
  record it returns true exactly when the high and the low price are each within two
  standard deviations of their average and each within its band between the 5th and the
  95th percentile. All four are needed.
\<close>

theorem price_consistent_iff:
  "\<not> is_price_consistent ch cl None
   \<and> (is_price_consistent ch cl (Some h) \<longleftrightarrow>
        (\<bar>real_of_int ch - avg_high h\<bar> \<le> 2 * high_std h
         \<and> \<bar>real_of_int cl - avg_low h\<bar> \<le> 2 * low_std h
         \<and> low_5th h \<le> cl \<and> cl \<le> low_95th h
         \<and> high_5th h \<le> ch \<and> ch \<le> high_95th h))"
  by (auto simp add: is_price_consistent_def Let_def)

subsection \<open>The score\<close>

lemma profit_multiplier_pos: "0 < profit_multiplier_of p"
  by (simp add: profit_multiplier_of_def)

text \<open>The score when neither volume penalty applies.\<close>

lemma score_unpenalised:
  assumes ppt: "100 \<le> real_of_int price * (mp / 100)"
    and rt: "0 < rt" and b: "0 < b"
    and v1: "real_of_int b * (86400 / real_of_int rt) \<le> real_of_int (min hv lv)"
    and v2: "real_of_int b \<le> real_of_int lv / (86400 / real_of_int rt)"
  shows "calculate_opportunity_score mp hv lv price b rt =
    Inr (real_of_int price * (mp / 100) * real_of_int b * (86400 / real_of_int rt)
         * profit_multiplier_of (real_of_int price * (mp / 100))
         * (1 + real_of_int b / 5000)
         * (1 + min (min (real_of_int hv / (86400 / real_of_int rt))
                         (real_of_int lv / (86400 / real_of_int rt)) / real_of_int b) 2))"
proof -
  have rt0: "real_of_int rt \<noteq> 0" using rt by simp
  have b0: "real_of_int b \<noteq> 0" using b by simp
  have n1: "\<not> real_of_int (min hv lv) < real_of_int b * (86400 / real_of_int rt)" using v1 by simp
  have n2: "\<not> real_of_int lv / (86400 / real_of_int rt) < real_of_int b" using v2 by simp
  have n0: "\<not> real_of_int price * (mp / 100) < 100" using ppt by simp
  show ?thesis
    unfolding calculate_opportunity_score_def Let_def py_truediv_def
    using rt0 b0 n1 n2 n0 by simp
qed

lemma limit_times_volume_bonus:
  fixes b V :: real
  assumes "0 < b"
  shows "b * (1 + min (V / b) 2) = min (b + V) (3 * b)"
proof (cases "V / b \<le> 2")
  case True
  then have "V \<le> 2 * b" using assms by (simp add: field_simps)
  with True assms show ?thesis by (simp add: min_def field_simps)
next
  case False
  then have "2 * b < V" using assms by (simp add: field_simps)
  with False assms show ?thesis by (simp add: min_def field_simps)
qed

lemma score_core_mono:
  fixes b1 b2 V :: real
  assumes "0 < b1" "b1 \<le> b2" "0 \<le> V"
  shows "b1 * (1 + b1 / 5000) * (1 + min (V / b1) 2) \<le> b2 * (1 + b2 / 5000) * (1 + min (V / b2) 2)"
proof -
  have b2: "0 < b2" using assms by simp
  have A: "b1 * (1 + min (V / b1) 2) \<le> b2 * (1 + min (V / b2) 2)"
    unfolding limit_times_volume_bonus [OF assms(1)] limit_times_volume_bonus [OF b2]
    using assms by (simp add: min_def)
  have A0: "0 \<le> b2 * (1 + min (V / b2) 2)"
    unfolding limit_times_volume_bonus [OF b2] using b2 assms(3) by (simp add: min_def)
  have B: "1 + b1 / 5000 \<le> 1 + b2 / 5000" using assms by simp
  have B0: "0 \<le> 1 + b1 / 5000" using assms by simp
  have "b1 * (1 + min (V / b1) 2) * (1 + b1 / 5000) \<le> b2 * (1 + min (V / b2) 2) * (1 + b2 / 5000)"
    by (rule mult_mono [OF A B A0 B0])
  then show ?thesis by (simp add: mult.assoc mult.left_commute mult.commute)
qed

text \<open>
  Claim C6, as stated: for any two calls that differ only in the buy limit, \<open>b1 \<le> b2\<close>,
  with both volume conditions at both limits, the score at \<open>b2\<close> is at least the score
  at \<open>b1\<close>. It is not so for a buy limit that is not positive. At the buy limits 0 and
  100 both conditions hold at both limits, and the call at 0 raises instead of returning
  a score. At the buy limits -10000 and -6000 both conditions hold again, and the score
  falls from 10800000 to 1200000.
\<close>

theorem score_not_monotone_at_nonpositive_buy_limit:
  "(0::int) \<le> 100
   \<and> real_of_int 0 * (86400 / real_of_int 14400) \<le> real_of_int (min 5000 5000)
   \<and> real_of_int 0 \<le> real_of_int 5000 / (86400 / real_of_int 14400)
   \<and> real_of_int 100 * (86400 / real_of_int 14400) \<le> real_of_int (min 5000 5000)
   \<and> real_of_int 100 \<le> real_of_int 5000 / (86400 / real_of_int 14400)
   \<and> calculate_opportunity_score 10 5000 5000 2000 0 14400 = Inl ZeroDivisionError
   \<and> calculate_opportunity_score 10 5000 5000 2000 100 14400 = Inr 367200
   \<and> (-10000::int) \<le> -6000
   \<and> real_of_int (-10000) * (86400 / real_of_int 14400) \<le> real_of_int (min 6000 6000)
   \<and> real_of_int (-10000) \<le> real_of_int 6000 / (86400 / real_of_int 14400)
   \<and> real_of_int (-6000) * (86400 / real_of_int 14400) \<le> real_of_int (min 6000 6000)
   \<and> real_of_int (-6000) \<le> real_of_int 6000 / (86400 / real_of_int 14400)
   \<and> calculate_opportunity_score 10 6000 6000 2000 (-10000) 14400 = Inr 10800000
   \<and> calculate_opportunity_score 10 6000 6000 2000 (-6000) 14400 = Inr 1200000
   \<and> \<not> (\<exists>s1 s2. calculate_opportunity_score 10 5000 5000 2000 0 14400 = Inr s1
               \<and> calculate_opportunity_score 10 5000 5000 2000 100 14400 = Inr s2 \<and> s1 \<le> s2)
   \<and> \<not> (\<exists>s1 s2. calculate_opportunity_score 10 6000 6000 2000 (-10000) 14400 = Inr s1
               \<and> calculate_opportunity_score 10 6000 6000 2000 (-6000) 14400 = Inr s2 \<and> s1 \<le> s2)"
  by (simp add: calculate_opportunity_score_def py_truediv_def profit_multiplier_of_def)

text \<open>
  Claim C6, amended. Take two calls of the score that differ only in the buy limit,
  \<open>0 < b1 \<le> b2\<close>, with a positive reset time. If at both limits neither volume
  penalty applies, both calls return a score and the score at \<open>b2\<close> is at least the
  score at \<open>b1\<close>.
\<close>

theorem score_monotone_in_buy_limit:
  assumes rt: "0 < rt" and b1: "0 < b1" and le: "b1 \<le> b2"
    and v1: "real_of_int b1 * (86400 / real_of_int rt) \<le> real_of_int (min hv lv)"
    and w1: "real_of_int b1 \<le> real_of_int lv / (86400 / real_of_int rt)"
    and v2: "real_of_int b2 * (86400 / real_of_int rt) \<le> real_of_int (min hv lv)"
    and w2: "real_of_int b2 \<le> real_of_int lv / (86400 / real_of_int rt)"
  shows "\<exists>s1 s2. calculate_opportunity_score mp hv lv price b1 rt = Inr s1
               \<and> calculate_opportunity_score mp hv lv price b2 rt = Inr s2 \<and> s1 \<le> s2"
proof (cases "real_of_int price * (mp / 100) < 100")
  case True
  then show ?thesis by (simp add: calculate_opportunity_score_def)
next
  case False
  then have ppt: "100 \<le> real_of_int price * (mp / 100)" by simp
  have b2: "0 < b2" using b1 le by simp
  let ?P = "real_of_int price * (mp / 100)"
  let ?D = "86400 / real_of_int rt"
  let ?V = "min (real_of_int hv / ?D) (real_of_int lv / ?D)"
  let ?K = "?P * ?D * profit_multiplier_of ?P"
  have D: "0 < ?D" using rt by simp
  have P0: "0 \<le> ?P" using ppt by linarith
  have K: "0 \<le> ?K"
    by (intro mult_nonneg_nonneg P0 less_imp_le [OF D] less_imp_le [OF profit_multiplier_pos])
  have "0 \<le> real_of_int b1 * ?D" using b1 D by simp
  with v1 have "0 \<le> real_of_int (min hv lv)" by linarith
  then have "0 \<le> real_of_int hv" "0 \<le> real_of_int lv" by (simp_all add: min_def split: if_splits)
  then have V: "0 \<le> ?V" using D by simp
  have core: "real_of_int b1 * (1 + real_of_int b1 / 5000) * (1 + min (?V / real_of_int b1) 2)
        \<le> real_of_int b2 * (1 + real_of_int b2 / 5000) * (1 + min (?V / real_of_int b2) 2)"
    by (rule score_core_mono) (use b1 le V in simp_all)
  have s1: "calculate_opportunity_score mp hv lv price b1 rt =
      Inr (?K * (real_of_int b1 * (1 + real_of_int b1 / 5000) * (1 + min (?V / real_of_int b1) 2)))"
    unfolding score_unpenalised [OF ppt rt b1 v1 w1] by (simp add: mult.assoc mult.left_commute)
  have s2: "calculate_opportunity_score mp hv lv price b2 rt =
      Inr (?K * (real_of_int b2 * (1 + real_of_int b2 / 5000) * (1 + min (?V / real_of_int b2) 2)))"
    unfolding score_unpenalised [OF ppt rt b2 v2 w2] by (simp add: mult.assoc mult.left_commute)
  show ?thesis unfolding s1 s2 using mult_left_mono [OF core K] by blast
qed

theorem score_monotone_in_buy_limit_witness:
  "calculate_opportunity_score 10 5000 5000 2000 100 14400 = Inr 367200
   \<and> calculate_opportunity_score 10 5000 5000 2000 200 14400 = Inr 748800
   \<and> (\<exists>s1 s2. calculate_opportunity_score 10 5000 5000 2000 100 14400 = Inr s1
               \<and> calculate_opportunity_score 10 5000 5000 2000 200 14400 = Inr s2 \<and> s1 \<le> s2)"
proof -
  have "\<exists>s1 s2. calculate_opportunity_score 10 5000 5000 2000 100 14400 = Inr s1
               \<and> calculate_opportunity_score 10 5000 5000 2000 200 14400 = Inr s2 \<and> s1 \<le> s2"
    by (rule score_monotone_in_buy_limit) simp_all
  moreover have "calculate_opportunity_score 10 5000 5000 2000 100 14400 = Inr 367200"
    "calculate_opportunity_score 10 5000 5000 2000 200 14400 = Inr 748800"
    by (simp_all add: calculate_opportunity_score_def py_truediv_def profit_multiplier_of_def)
  ultimately show ?thesis by blast
qed

text \<open>
  Claim C10. With a buy limit of 0 and a profit per trade of at least 100 the score
  function never returns a score: it raises a division by zero, whatever the volumes and
  the reset time. The first pass lets such an item through: a buy limit of 0 is present,
  so the item is not dropped for a missing buy limit, and the run stops with
  the exception. With positive volumes the two penalties are skipped and the division
  that fails is the one of the volume ratio.
\<close>

theorem score_raises_at_zero_buy_limit:
  "(100 \<le> real_of_int price * (mp / 100) \<longrightarrow>
      calculate_opportunity_score mp hv lv price 0 rt = Inl ZeroDivisionError)
   \<and> calculate_opportunity_score 10 5000 5000 11000 0 14400 = Inl ZeroDivisionError
   \<and> evaluate_item 100 0.5 None
       [''2'' \<mapsto> \<lparr>avgHighPrice = Some 11000, avgLowPrice = Some 10000,
                  highPriceVolume = Some 500, lowPriceVolume = Some 500\<rparr>]
       [''2'' \<mapsto> \<lparr>info_name = ''x'', info_buy_limit = Some 0, info_reset_time = 14400\<rparr>]
       ''2'' \<lparr>high = Some 11000, low = Some 10000\<rparr> = Inl ZeroDivisionError"
proof (intro conjI impI)
  assume "100 \<le> real_of_int price * (mp / 100)"
  then show "calculate_opportunity_score mp hv lv price 0 rt = Inl ZeroDivisionError"
    by (auto simp add: calculate_opportunity_score_def Let_def py_truediv_def bind_err_def
        split: sum.splits if_splits)
next
  show "calculate_opportunity_score 10 5000 5000 11000 0 14400 = Inl ZeroDivisionError"
    by (simp add: calculate_opportunity_score_def py_truediv_def)
next
  show "evaluate_item 100 0.5 None
       [''2'' \<mapsto> \<lparr>avgHighPrice = Some 11000, avgLowPrice = Some 10000,
                  highPriceVolume = Some 500, lowPriceVolume = Some 500\<rparr>]
       [''2'' \<mapsto> \<lparr>info_name = ''x'', info_buy_limit = Some 0, info_reset_time = 14400\<rparr>]
       ''2'' \<lparr>high = Some 11000, low = Some 10000\<rparr> = Inl ZeroDivisionError"
    by (simp add: evaluate_item_def Let_def py_truediv_def calculate_ge_tax_def py_int_def
        item_info_of_def calculate_required_capital_def exceeds_cash_def
        calculate_expected_capital_after_flip_def calculate_opportunity_score_def
        calculate_bond_conversion_cost_def)
qed

theorem score_raises_at_zero_buy_limit_witness:
  "(100::real) \<le> real_of_int 2000 * (10 / 100)
   \<and> calculate_opportunity_score 10 300 400 2000 0 14400 = Inl ZeroDivisionError"
  using score_raises_at_zero_buy_limit [of 2000 10 300 400 14400] by simp

subsection \<open>The order of the filters of the first pass\<close>




subsection \<open>An available cash of 0\<close>

lemma exceeds_cash_zero: "exceeds_cash (Some 0) r = exceeds_cash None r"
  by (simp add: exceeds_cash_def)

lemma truthy_zero: "truthy (Some 0) = truthy None"
  by (simp add: truthy_def)

lemma evaluate_item_zero_cash:
  "evaluate_item mv mm (Some 0) d n i data = evaluate_item mv mm None d n i data"
  unfolding evaluate_item_def exceeds_cash_zero by (rule refl)

lemma insufficient_only_if_exceeds:
  "evaluate_item mv mm cash d n i data = Inr (Dropped Insufficient_cash_items) \<Longrightarrow> \<exists>r. exceeds_cash cash r"
  by (auto simp add: evaluate_item_def Let_def bind_err_def split: option.splits if_splits sum.splits)

lemma collect_zero_cash:
  "collect_opportunities mv mm (Some 0) d n items opps counts
     = collect_opportunities mv mm None d n items opps counts"
  by (induction items arbitrary: opps counts)
     (auto simp add: evaluate_item_zero_cash split: sum.splits outcome.splits)

lemma collect_keeps_insufficient_count:
  assumes "collect_opportunities mv mm cash d n items opps counts = Inr (opps', counts')"
    and "\<And>r. \<not> exceeds_cash cash r"
  shows "counts' Insufficient_cash_items = counts Insufficient_cash_items"
  using assms(1)
proof (induction items arbitrary: opps counts)
  case Nil
  then show ?case by simp
next
  case (Cons x items)
  obtain i data where x: "x = (i, data)" by (cases x)
  show ?case
  proof (cases "evaluate_item mv mm cash d n i data")
    case (Inl e)
    with Cons.prems x show ?thesis by simp
  next
    case (Inr out)
    show ?thesis
    proof (cases out)
      case (Dropped r)
      have "r \<noteq> Insufficient_cash_items"
        using insufficient_only_if_exceeds [of mv mm cash d n i data] Inr Dropped assms(2) by auto
      moreover have "collect_opportunities mv mm cash d n items opps (counts(r := counts r + 1))
          = Inr (opps', counts')"
        using Cons.prems unfolding x by (simp add: Inr Dropped)
      then have "counts' Insufficient_cash_items = (counts(r := counts r + 1)) Insufficient_cash_items"
        by (rule Cons.IH)
      ultimately show ?thesis by simp
    next
      case (Appended opp)
      have "collect_opportunities mv mm cash d n items (opps @ [opp]) counts = Inr (opps', counts')"
        using Cons.prems unfolding x by (simp add: Inr Appended)
      then show ?thesis by (rule Cons.IH)
    qed
  qed
qed

text \<open>
  Claim C9. With an available cash of 0 the test for insufficient capital is off: the
  guard reads the truth value of the cash, and 0 is false. The whole run is the run
  without a cash value: same result or same exception, same counters, the same silence
  about the cash. No item is dropped for insufficient capital, and the counter of such
  drops stays 0.
\<close>

theorem zero_cash_is_no_cash:
  "analyze_flipping_opportunities lp dp names fetch mv mm (Some 0)
     = analyze_flipping_opportunities lp dp names fetch mv mm None
   \<and> evaluate_item mv mm (Some 0) dp names i data = evaluate_item mv mm None dp names i data
   \<and> evaluate_item mv mm (Some 0) dp names i data \<noteq> Inr (Dropped Insufficient_cash_items)
   \<and> (\<forall>a. analyze_flipping_opportunities lp dp names fetch mv mm (Some 0) = Inr a
          \<longrightarrow> dropped a Insufficient_cash_items = 0 \<and> \<not> cash_lines a)"
proof (intro conjI allI impI)
  show "analyze_flipping_opportunities lp dp names fetch mv mm (Some 0)
     = analyze_flipping_opportunities lp dp names fetch mv mm None"
    unfolding analyze_flipping_opportunities_def collect_zero_cash truthy_zero by (rule refl)
  show "evaluate_item mv mm (Some 0) dp names i data = evaluate_item mv mm None dp names i data"
    by (rule evaluate_item_zero_cash)
  show "evaluate_item mv mm (Some 0) dp names i data \<noteq> Inr (Dropped Insufficient_cash_items)"
    using insufficient_only_if_exceeds [of mv mm "Some 0" dp names i data]
    by (auto simp add: exceeds_cash_def)
next
  fix a
  assume a: "analyze_flipping_opportunities lp dp names fetch mv mm (Some 0) = Inr a"
  then obtain opps counts where
    c: "collect_opportunities mv mm (Some 0) dp names lp [] (\<lambda>r. 0) = Inr (opps, counts)"
    and d: "dropped a = counts" and l: "cash_lines a = truthy (Some 0)"
    by (auto simp add: analyze_flipping_opportunities_def split: sum.splits prod.splits)
  have "counts Insufficient_cash_items = (\<lambda>r. 0 :: nat) Insufficient_cash_items"
    by (rule collect_keeps_insufficient_count [OF c]) (simp add: exceeds_cash_def)
  then show "dropped a Insufficient_cash_items = 0" using d by simp
  show "\<not> cash_lines a" using l by (simp add: truthy_def)
qed

theorem zero_cash_is_no_cash_witness:
  "evaluate_item 100 0.5 (Some 1000)
     [''1'' \<mapsto> \<lparr>avgHighPrice = Some 11000, avgLowPrice = Some 10000,
                highPriceVolume = Some 5000, lowPriceVolume = Some 5000\<rparr>]
     [''1'' \<mapsto> \<lparr>info_name = ''x'', info_buy_limit = Some 100, info_reset_time = 14400\<rparr>]
     ''1'' \<lparr>high = Some 11000, low = Some 10000\<rparr> = Inr (Dropped Insufficient_cash_items)
   \<and> (\<exists>a. analyze_flipping_opportunities [(''1'', \<lparr>high = Some 11000, low = Some 10000\<rparr>)]
     [''1'' \<mapsto> \<lparr>avgHighPrice = Some 11000, avgLowPrice = Some 10000,
                highPriceVolume = Some 5000, lowPriceVolume = Some 5000\<rparr>]
     [''1'' \<mapsto> \<lparr>info_name = ''x'', info_buy_limit = Some 100, info_reset_time = 14400\<rparr>]
     (\<lambda>i. None) 100 0.5 (Some 0) = Inr a
     \<and> dropped a Insufficient_cash_items = 0 \<and> \<not> cash_lines a \<and> inconsistent a = 1
     \<and> history_requests a = [''1''])"
proof -
  let ?lp = "[(''1'', \<lparr>high = Some 11000, low = Some 10000\<rparr>)]"
  let ?dp = "[''1'' \<mapsto> \<lparr>avgHighPrice = Some 11000, avgLowPrice = Some 10000,
                highPriceVolume = Some 5000, lowPriceVolume = Some (5000::int)\<rparr>]"
  let ?names = "[''1'' \<mapsto> \<lparr>info_name = ''x'', info_buy_limit = Some 100, info_reset_time = 14400\<rparr>]"
  have run: "\<exists>a. analyze_flipping_opportunities ?lp ?dp ?names (\<lambda>i. None) 100 0.5 None = Inr a
      \<and> inconsistent a = 1 \<and> history_requests a = [''1'']"
    by (simp add: analyze_flipping_opportunities_def evaluate_item_def Let_def py_truediv_def
        calculate_ge_tax_def py_int_def item_info_of_def calculate_required_capital_def
        exceeds_cash_def calculate_expected_capital_after_flip_def
        calculate_opportunity_score_def calculate_bond_conversion_cost_def
        profit_multiplier_of_def rank_def select_opportunities_def get_7d_prices_def
        is_price_consistent_def normalize_scores_def py_slice_def)
  have drop: "evaluate_item 100 0.5 (Some 1000) ?dp ?names ''1'' \<lparr>high = Some 11000, low = Some 10000\<rparr>
      = Inr (Dropped Insufficient_cash_items)"
    by (simp add: evaluate_item_def Let_def py_truediv_def
        calculate_ge_tax_def py_int_def item_info_of_def calculate_required_capital_def
        exceeds_cash_def calculate_bond_conversion_cost_def)
  from run drop zero_cash_is_no_cash [of ?lp ?dp ?names "\<lambda>i. None" 100 "0.5" "''1''" "\<lparr>high = Some 11000, low = Some 10000\<rparr>"]
  show ?thesis by auto
qed

subsection \<open>The statistics of a short history\<close>

lemma index_5th_div: "index_5th n = n div 20"
proof -
  have "real n * 0.05 = real_of_int (int n) / real_of_int 20" by simp
  then have "\<lfloor>real n * 0.05\<rfloor> = int n div 20" by (simp only: floor_divide_of_int_eq)
  moreover have "0 \<le> real n * 0.05" by simp
  ultimately have "py_int (real n * 0.05) = int (n div 20)" by (simp only: py_int_nonneg zdiv_int of_nat_numeral)
  then show ?thesis unfolding index_5th_def by (simp only: nat_int)
qed

lemma index_95th_div: "index_95th n = 19 * n div 20"
proof -
  have "real n * 0.95 = real_of_int (int (19 * n)) / real_of_int 20" by simp
  then have "\<lfloor>real n * 0.95\<rfloor> = int (19 * n) div 20" by (simp only: floor_divide_of_int_eq)
  moreover have "0 \<le> real n * 0.95" by simp
  ultimately have "py_int (real n * 0.95) = int (19 * n div 20)" by (simp only: py_int_nonneg zdiv_int of_nat_numeral)
  then show ?thesis unfolding index_95th_def by (simp only: nat_int)
qed

lemma index_5th_zero_iff: "index_5th n = 0 \<longleftrightarrow> n < 20"
  unfolding index_5th_div by (simp add: div_eq_0_iff)

lemma index_5th_less: "0 < n \<Longrightarrow> index_5th n < n"
  unfolding index_5th_div by (rule div_less_dividend) simp_all

lemma index_95th_less: "0 < n \<Longrightarrow> index_95th n < n"
proof -
  assume "0 < n"
  then have "19 * n < n * 20" by simp
  then have "19 * n div 20 < n" by (simp only: div_less_iff_less_mult zero_less_numeral)
  then show ?thesis unfolding index_95th_div .
qed

lemma py_index_in_range: "i < length xs \<Longrightarrow> py_index xs i = Inr (xs ! i)"
  by (simp add: py_index_def)

lemma historical_stats_short:
  assumes h: "truthy_values avgHighPrice item_data \<noteq> []"
    and l: "truthy_values avgLowPrice item_data \<noteq> []"
    and short: "index_5th (length (truthy_values avgLowPrice item_data)) = 0
                \<or> index_5th (length (truthy_values avgHighPrice item_data)) = 0"
  shows "historical_stats item_data = Inl ZeroDivisionError"
proof -
  let ?hp = "sort (truthy_values avgHighPrice item_data)"
  let ?lp = "sort (truthy_values avgLowPrice item_data)"
  have ne: "item_data \<noteq> []" using h by auto
  have nh: "0 < length ?hp" using h by simp
  have nl: "0 < length ?lp" using l by simp
  note idx = py_index_in_range [OF index_5th_less [OF nh]] py_index_in_range [OF index_95th_less [OF nh]]
    py_index_in_range [OF index_5th_less [OF nl]] py_index_in_range [OF index_95th_less [OF nl]]
  have short': "index_5th (length ?lp) = 0 \<or> index_5th (length ?hp) = 0" using short by simp
  have "bind_err (py_truediv (real_of_int (sum_list (take (index_5th (length ?lp)) ?lp)))
                      (real (index_5th (length ?lp)))) (\<lambda>al5.
          bind_err (py_truediv (real_of_int (sum_list (take (index_5th (length ?hp)) ?hp)))
                      (real (index_5th (length ?hp)))) (\<lambda>ah5. k al5 ah5)) = Inl ZeroDivisionError" for k :: "real \<Rightarrow> real \<Rightarrow> error + historical option"
    using short' by (auto simp add: py_truediv_def)
  then show ?thesis
    unfolding historical_stats_def Let_def using ne h l idx by simp
qed

text \<open>The only exception the statistics raise is the division by zero.\<close>

lemma middle_std_error: "middle_std prices avg = Inl e \<Longrightarrow> e = ZeroDivisionError"
proof -
  assume a: "middle_std prices avg = Inl e"
  let ?s = "sum_list (map (\<lambda>x. (real_of_int x - avg) ^ 2)
             (py_slice (index_5th (length prices)) (index_95th (length prices)) prices))"
  have "0 \<le> ?s" by (rule sum_list_nonneg) auto
  then have "0 \<le> ?s / (real (length prices) * 0.9)" by simp
  then have "\<not> ?s / (real (length prices) * 0.9) < 0" by simp
  with a show ?thesis
    unfolding middle_std_def py_truediv_def py_sqrt_def by (simp split: if_splits)
qed

lemma historical_stats_error:
  assumes "historical_stats item_data = Inl e"
  shows "e = ZeroDivisionError"
proof -
  let ?hp = "sort (truthy_values avgHighPrice item_data)"
  let ?lp = "sort (truthy_values avgLowPrice item_data)"
  have h: "truthy_values avgHighPrice item_data \<noteq> []"
    and l: "truthy_values avgLowPrice item_data \<noteq> []" and ne: "item_data \<noteq> []"
    using assms unfolding historical_stats_def Let_def by (auto split: if_splits)
  have nh: "0 < length ?hp" using h by simp
  have nl: "0 < length ?lp" using l by simp
  note idx = py_index_in_range [OF index_5th_less [OF nh]] py_index_in_range [OF index_95th_less [OF nh]]
    py_index_in_range [OF index_5th_less [OF nl]] py_index_in_range [OF index_95th_less [OF nl]]
  have td: "py_truediv a b = Inl e' \<Longrightarrow> e' = ZeroDivisionError" for a b e'
    by (simp add: py_truediv_def split: if_splits)
  have av: "avg_volume vs = Inl e' \<Longrightarrow> e' = ZeroDivisionError" for vs e'
    by (simp add: avg_volume_def py_truediv_def split: if_splits)
  have ma: "middle_avg ps = Inl e' \<Longrightarrow> e' = ZeroDivisionError" for ps e'
    by (simp add: middle_avg_def py_truediv_def split: if_splits)
  have b: "bind_err r f = Inl e' \<Longrightarrow> (r = Inl e' \<or> (\<exists>v. r = Inr v \<and> f v = Inl e'))" for r :: "error + real" and f :: "real \<Rightarrow> error + historical option" and e'
    by (cases r) simp_all
  from assms have "bind_err (py_truediv (real_of_int (sum_list (take (index_5th (length ?lp)) ?lp)))
                      (real (index_5th (length ?lp)))) (\<lambda>al5.
          bind_err (py_truediv (real_of_int (sum_list (take (index_5th (length ?hp)) ?hp)))
                      (real (index_5th (length ?hp)))) (\<lambda>ah5.
          bind_err (py_truediv (real_of_int (sum_list (drop (index_95th (length ?lp)) ?lp)))
                      (real_of_int (int (length ?lp) - int (index_95th (length ?lp))))) (\<lambda>al95.
          bind_err (py_truediv (real_of_int (sum_list (drop (index_95th (length ?hp)) ?hp)))
                      (real_of_int (int (length ?hp) - int (index_95th (length ?hp))))) (\<lambda>ah95.
          bind_err (middle_avg ?hp) (\<lambda>ah.
          bind_err (middle_avg ?lp) (\<lambda>al.
          bind_err (middle_std ?hp ah) (\<lambda>hs.
          bind_err (middle_std ?lp al) (\<lambda>ls.
          bind_err (avg_volume (truthy_values highPriceVolume item_data)) (\<lambda>ahv.
          bind_err (avg_volume (truthy_values lowPriceVolume item_data)) (\<lambda>alv.
          Inr (Some \<lparr>avg_high = ah, avg_low = al, high_std = hs, low_std = ls,
                      high_5th = ?hp ! index_5th (length ?hp), high_95th = ?hp ! index_95th (length ?hp),
                      low_5th = ?lp ! index_5th (length ?lp), low_95th = ?lp ! index_95th (length ?lp),
                      avg_high_5th = ah5, avg_low_5th = al5,
                      avg_high_95th = ah95, avg_low_95th = al95,
                      avg_high_volume = ahv, avg_low_volume = alv,
                      data_points = length item_data\<rparr>))))))))))) = Inl e"
    unfolding historical_stats_def Let_def using ne h l idx by simp
  then show ?thesis
    by (auto dest!: b dest: td av ma middle_std_error)
qed

lemma get_7d_loop_error:
  "get_7d_loop fetch ids results = Inl e \<Longrightarrow> e = ZeroDivisionError"
proof (induction ids arbitrary: results)
  case Nil
  then show ?case by simp
next
  case (Cons i ids)
  then show ?case
    by (auto split: option.splits sum.splits dest: historical_stats_error)
qed

lemma get_7d_loop_raises:
  assumes "i \<in> set ids" "fetch i = Some item_data" "historical_stats item_data = Inl ZeroDivisionError"
  shows "get_7d_loop fetch ids results = Inl ZeroDivisionError"
  using assms(1)
proof (induction ids arbitrary: results)
  case Nil
  then show ?case by simp
next
  case (Cons j ids)
  show ?case
  proof (cases "j = i")
    case True
    then show ?thesis using assms(2,3) by simp
  next
    case False
    with Cons.prems have i: "i \<in> set ids" by simp
    show ?thesis
      using Cons.IH [OF i]
      by (auto split: option.splits sum.splits dest: historical_stats_error)
  qed
qed

text \<open>
  Claim C1. The specification asks that a series whose sorted price list is so short
  that \<open>floor(n * 0.05) = 0\<close> is reported as an insufficient history and the item
  treated as inconsistent. The source does not do so: for a list that is not empty and
  shorter than 20 the average of the bottom 5 percent divides the sum of an empty slice
  by 0. The exception is not among those \<open>get_7d_prices\<close> catches, so it leaves
  \<open>get_7d_prices\<close> and ends the selection for every item, not only for the one with
  the short history.
\<close>

theorem short_history_raises:
  assumes "truthy_values avgHighPrice item_data \<noteq> []"
    and "truthy_values avgLowPrice item_data \<noteq> []"
    and "index_5th (length (truthy_values avgLowPrice item_data)) = 0
         \<or> index_5th (length (truthy_values avgHighPrice item_data)) = 0"
    and "fetch i = Some item_data"
  shows "historical_stats item_data = Inl ZeroDivisionError
    \<and> (length (truthy_values avgLowPrice item_data) < 20
        \<or> length (truthy_values avgHighPrice item_data) < 20)
    \<and> (i \<in> set ids \<longrightarrow> get_7d_prices fetch ids = Inl ZeroDivisionError)
    \<and> (i \<in> set (map item_id (take 20 pool))
        \<longrightarrow> select_opportunities fetch pool = Inl ZeroDivisionError)"
proof -
  have stats: "historical_stats item_data = Inl ZeroDivisionError"
    by (rule historical_stats_short [OF assms(1,2,3)])
  have loop: "get_7d_prices fetch js = Inl ZeroDivisionError" if "i \<in> set js" for js
    unfolding get_7d_prices_def using that assms(4) stats by (rule get_7d_loop_raises)
  have "select_opportunities fetch pool = Inl ZeroDivisionError"
    if "i \<in> set (map item_id (take 20 pool))"
    unfolding select_opportunities_def Let_def loop [OF that] by simp
  with stats loop assms(3) show ?thesis by (simp add: index_5th_zero_iff)
qed

theorem short_history_raises_witness:
  "truthy_values avgHighPrice
     (map (\<lambda>p. \<lparr>avgHighPrice = Some (p + 10), avgLowPrice = Some p,
                 highPriceVolume = Some 50, lowPriceVolume = Some 60\<rparr>)
          [100, 103, 99, 101, 104, 98, 102])
   = [110, 113, 109, 111, 114, 108, 112]
   \<and> index_5th 7 = 0
   \<and> historical_stats
     (map (\<lambda>p. \<lparr>avgHighPrice = Some (p + 10), avgLowPrice = Some p,
                 highPriceVolume = Some 50, lowPriceVolume = Some 60\<rparr>)
          [100, 103, 99, 101, 104, 98, 102])
   = Inl ZeroDivisionError
   \<and> get_7d_prices
     (\<lambda>i. Some (map (\<lambda>p. \<lparr>avgHighPrice = Some (p + 10), avgLowPrice = Some p,
                 highPriceVolume = Some 50, lowPriceVolume = Some 60\<rparr>)
          [100, 103, 99, 101, 104, 98, 102])) [''1'']
   = Inl ZeroDivisionError
   \<and> analyze_flipping_opportunities [(''1'', \<lparr>high = Some 11000, low = Some 10000\<rparr>)]
     [''1'' \<mapsto> \<lparr>avgHighPrice = Some 11000, avgLowPrice = Some 10000,
                highPriceVolume = Some 5000, lowPriceVolume = Some 5000\<rparr>]
     [''1'' \<mapsto> \<lparr>info_name = ''x'', info_buy_limit = Some 100, info_reset_time = 14400\<rparr>]
     (\<lambda>i. Some (map (\<lambda>p. \<lparr>avgHighPrice = Some (p + 10), avgLowPrice = Some p,
                 highPriceVolume = Some 50, lowPriceVolume = Some 60\<rparr>)
          [100, 103, 99, 101, 104, 98, 102])) 100 0.5 None
   = Inl ZeroDivisionError"
proof -
  let ?d = "map (\<lambda>p. \<lparr>avgHighPrice = Some (p + 10), avgLowPrice = Some p,
                 highPriceVolume = Some 50, lowPriceVolume = Some (60::int)\<rparr>)
          [100, 103, 99, 101, 104, 98, 102]"
  let ?lp = "[(''1'', \<lparr>high = Some 11000, low = Some 10000\<rparr>)]"
  let ?dp = "[''1'' \<mapsto> \<lparr>avgHighPrice = Some 11000, avgLowPrice = Some 10000,
                highPriceVolume = Some 5000, lowPriceVolume = Some (5000::int)\<rparr>]"
  let ?names = "[''1'' \<mapsto> \<lparr>info_name = ''x'', info_buy_limit = Some 100, info_reset_time = 14400\<rparr>]"
  have h: "truthy_values avgHighPrice ?d = [110, 113, 109, 111, 114, 108, 112]"
    and l: "truthy_values avgLowPrice ?d = [100, 103, 99, 101, 104, 98, 102]" by simp_all
  have i7: "index_5th 7 = 0" by (simp add: index_5th_div)
  have pool: "\<exists>opp counts. collect_opportunities 100 0.5 None ?dp ?names ?lp [] (\<lambda>r. 0)
      = Inr ([opp], counts) \<and> item_id opp = ''1''"
    by (simp add: evaluate_item_def Let_def py_truediv_def
        calculate_ge_tax_def py_int_def item_info_of_def calculate_required_capital_def
        exceeds_cash_def calculate_expected_capital_after_flip_def
        calculate_opportunity_score_def calculate_bond_conversion_cost_def
        profit_multiplier_of_def)
  from pool obtain opp counts where
    c: "collect_opportunities 100 0.5 None ?dp ?names ?lp [] (\<lambda>r. 0) = Inr ([opp], counts)"
    and o: "item_id opp = ''1''" by blast
  have t: "historical_stats ?d = Inl ZeroDivisionError
    \<and> (length (truthy_values avgLowPrice ?d) < 20 \<or> length (truthy_values avgHighPrice ?d) < 20)
    \<and> (''1'' \<in> set [''1''] \<longrightarrow> get_7d_prices (\<lambda>i. Some ?d) [''1''] = Inl ZeroDivisionError)
    \<and> (''1'' \<in> set (map item_id (take 20 (rank [opp])))
        \<longrightarrow> select_opportunities (\<lambda>i. Some ?d) (rank [opp]) = Inl ZeroDivisionError)"
    by (rule short_history_raises) (simp_all add: index_5th_div)
  have a: "historical_stats ?d = Inl ZeroDivisionError"
    and b: "get_7d_prices (\<lambda>i. Some ?d) [''1''] = Inl ZeroDivisionError"
    using t by simp_all
  have "select_opportunities (\<lambda>i. Some ?d) (rank [opp]) = Inl ZeroDivisionError"
    using t o by (simp add: rank_def)
  then have "analyze_flipping_opportunities ?lp ?dp ?names (\<lambda>i. Some ?d) 100 0.5 None
      = Inl ZeroDivisionError"
    unfolding analyze_flipping_opportunities_def c by simp
  with h i7 a b show ?thesis by simp
qed

subsection \<open>The mean and the deviation of the middle range\<close>

lemma spec_middle_slice_eq:
  "spec_middle_slice prices = py_slice (index_5th (length prices)) (index_95th (length prices)) prices"
  by (simp add: spec_middle_slice_def py_slice_def index_5th_def index_95th_def py_int_def)

lemma length_middle_slice:
  "length (spec_middle_slice prices) = 19 * length prices div 20 - length prices div 20"
  unfolding spec_middle_slice_eq py_slice_def index_5th_div index_95th_div
  using index_95th_less [of "length prices"] by (cases "length prices = 0") (simp_all add: index_95th_div)

lemma middle_count_pos:
  fixes n :: nat
  assumes "2 \<le> n"
  shows "0 < 19 * n div 20 - n div 20"
proof -
  have "n div 20 * 20 \<le> n" by (rule div_times_less_eq_dividend)
  moreover have "19 * n < 20 + 19 * n div 20 * 20" by (rule dividend_less_div_times) simp
  ultimately show ?thesis using assms by linarith
qed

lemma middle_count_nominal_iff:
  fixes n :: nat
  shows "10 * (19 * n div 20 - n div 20) = 9 * n \<longleftrightarrow> 10 dvd n"
proof
  assume "10 * (19 * n div 20 - n div 20) = 9 * n"
  then have "10 dvd 9 * n" by (metis dvd_triv_left)
  moreover have "10 dvd 10 * n" by (rule dvd_triv_left)
  ultimately have "10 dvd 10 * n - 9 * n" by (rule dvd_diff_nat [rotated])
  then show "10 dvd n" by simp
next
  assume "10 dvd n"
  then obtain k where k: "n = 10 * k" by (auto elim: dvdE)
  have a: "n div 20 = k div 2" unfolding k by simp
  have b: "19 * n div 20 = 19 * k div 2" unfolding k by simp
  show "10 * (19 * n div 20 - n div 20) = 9 * n"
  proof (cases "even k")
    case True
    then obtain j where j: "k = 2 * j" by (auto elim: evenE)
    have "k div 2 = j" "19 * k div 2 = 19 * j" unfolding j by simp_all
    then show ?thesis unfolding a b by (simp add: k j)
  next
    case False
    then obtain j where j: "k = 2 * j + 1" by (auto elim: oddE)
    have "19 * k = 2 * (19 * j + 9) + 1" unfolding j by simp
    then have "19 * k div 2 = 19 * j + 9" by simp
    moreover have "k div 2 = j" unfolding j by simp
    ultimately show ?thesis unfolding a b by (simp add: k j)
  qed
qed

lemma middle_avg_value:
  assumes "prices \<noteq> []"
  shows "middle_avg prices
    = Inr (real_of_int (sum_list (spec_middle_slice prices)) / (0.9 * real (length prices)))"
  using assms unfolding middle_avg_def spec_middle_slice_eq py_truediv_def
  by (simp add: mult.commute)

lemma middle_std_value:
  assumes "prices \<noteq> []"
  shows "middle_std prices avg
    = Inr (sqrt (sum_list (map (\<lambda>x. (real_of_int x - avg) ^ 2) (spec_middle_slice prices))
                 / (0.9 * real (length prices))))"
proof -
  let ?s = "sum_list (map (\<lambda>x. (real_of_int x - avg) ^ 2) (spec_middle_slice prices))"
  have "0 \<le> ?s" by (rule sum_list_nonneg) auto
  then have "0 \<le> ?s / (real (length prices) * 0.9)" by simp
  then have "\<not> ?s / (real (length prices) * 0.9) < 0" by simp
  then show ?thesis
    using assms unfolding middle_std_def spec_middle_slice_eq py_truediv_def py_sqrt_def
    by (simp add: mult.commute)
qed

lemma nominal_count_iff:
  assumes "2 \<le> length prices"
  shows "0.9 * real (length prices) = real (length (spec_middle_slice prices))
         \<longleftrightarrow> 10 dvd length prices"
proof -
  let ?n = "length prices"
  let ?m = "19 * ?n div 20 - ?n div 20"
  have e: "0.9 * real n = real m \<longleftrightarrow> 9 * n = 10 * m" for n m :: nat
  proof -
    have "0.9 * real n = real m \<longleftrightarrow> real (9 * n) = real (10 * m)" by (simp add: ac_simps)
    then show ?thesis by (simp only: of_nat_eq_iff)
  qed
  have "0.9 * real ?n = real ?m \<longleftrightarrow> 10 dvd ?n"
    unfolding e using middle_count_nominal_iff [of ?n] by auto
  then show ?thesis unfolding length_middle_slice .
qed

lemma middle_avg_mean_iff:
  assumes "2 \<le> length prices"
  shows "real_of_int (sum_list (spec_middle_slice prices)) / (0.9 * real (length prices))
           = spec_mean (spec_middle_slice prices)
         \<longleftrightarrow> 10 dvd length prices \<or> sum_list (spec_middle_slice prices) = 0"
proof -
  let ?S = "real_of_int (sum_list (spec_middle_slice prices))"
  let ?d = "0.9 * real (length prices)"
  let ?m = "real (length (spec_middle_slice prices))"
  have m: "0 < ?m" unfolding length_middle_slice using middle_count_pos [OF assms] by simp
  have "0 < length prices" using assms by linarith
  then have d: "0 < ?d" by simp
  have "?S / ?d = ?S / ?m \<longleftrightarrow> ?S * ?m = ?S * ?d" using m d by (simp add: field_simps)
  also have "\<dots> \<longleftrightarrow> ?S = 0 \<or> ?d = ?m" by (simp only: mult_cancel_left) auto
  finally show ?thesis
    unfolding spec_mean_def nominal_count_iff [OF assms] by auto
qed

lemma middle_std_spec:
  assumes "2 \<le> length prices" "10 dvd length prices"
  shows "sqrt (sum_list (map (\<lambda>x. (real_of_int x - spec_mean (spec_middle_slice prices)) ^ 2)
                 (spec_middle_slice prices)) / (0.9 * real (length prices)))
         = spec_population_std (spec_middle_slice prices)"
  unfolding spec_population_std_def using nominal_count_iff [OF assms(1)] assms(2) by simp

text \<open>What a record of statistics holds, and when the source returns one.\<close>

lemma historical_stats_fields:
  assumes "historical_stats item_data = Inr (Some h)"
  shows "truthy_values avgHighPrice item_data \<noteq> []"
    and "truthy_values avgLowPrice item_data \<noteq> []"
    and "index_5th (length (truthy_values avgHighPrice item_data)) \<noteq> 0"
    and "index_5th (length (truthy_values avgLowPrice item_data)) \<noteq> 0"
    and "middle_avg (sort (truthy_values avgHighPrice item_data)) = Inr (avg_high h)"
    and "middle_avg (sort (truthy_values avgLowPrice item_data)) = Inr (avg_low h)"
    and "middle_std (sort (truthy_values avgHighPrice item_data)) (avg_high h) = Inr (high_std h)"
    and "middle_std (sort (truthy_values avgLowPrice item_data)) (avg_low h) = Inr (low_std h)"
proof -
  let ?hp = "sort (truthy_values avgHighPrice item_data)"
  let ?lp = "sort (truthy_values avgLowPrice item_data)"
  show h: "truthy_values avgHighPrice item_data \<noteq> []"
    and l: "truthy_values avgLowPrice item_data \<noteq> []"
    using assms unfolding historical_stats_def Let_def by (auto split: if_splits)
  have ne: "item_data \<noteq> []" using h by auto
  have "\<not> (index_5th (length (truthy_values avgLowPrice item_data)) = 0
                \<or> index_5th (length (truthy_values avgHighPrice item_data)) = 0)"
  proof
    assume "index_5th (length (truthy_values avgLowPrice item_data)) = 0
                \<or> index_5th (length (truthy_values avgHighPrice item_data)) = 0"
    then have "historical_stats item_data = Inl ZeroDivisionError"
      by (rule historical_stats_short [OF h l])
    with assms show False by simp
  qed
  then show "index_5th (length (truthy_values avgHighPrice item_data)) \<noteq> 0"
    and "index_5th (length (truthy_values avgLowPrice item_data)) \<noteq> 0"
    by simp_all
  have nh: "0 < length ?hp" using h by simp
  have nl: "0 < length ?lp" using l by simp
  note idx = py_index_in_range [OF index_5th_less [OF nh]] py_index_in_range [OF index_95th_less [OF nh]]
    py_index_in_range [OF index_5th_less [OF nl]] py_index_in_range [OF index_95th_less [OF nl]]
  have b: "bind_err r f = Inr v \<Longrightarrow> \<exists>x. r = Inr x \<and> f x = Inr v"
    for r :: "error + real" and f :: "real \<Rightarrow> error + historical option" and v
    by (cases r) simp_all
  from assms have "bind_err (py_truediv (real_of_int (sum_list (take (index_5th (length ?lp)) ?lp)))
                      (real (index_5th (length ?lp)))) (\<lambda>al5.
          bind_err (py_truediv (real_of_int (sum_list (take (index_5th (length ?hp)) ?hp)))
                      (real (index_5th (length ?hp)))) (\<lambda>ah5.
          bind_err (py_truediv (real_of_int (sum_list (drop (index_95th (length ?lp)) ?lp)))
                      (real_of_int (int (length ?lp) - int (index_95th (length ?lp))))) (\<lambda>al95.
          bind_err (py_truediv (real_of_int (sum_list (drop (index_95th (length ?hp)) ?hp)))
                      (real_of_int (int (length ?hp) - int (index_95th (length ?hp))))) (\<lambda>ah95.
          bind_err (middle_avg ?hp) (\<lambda>ah.
          bind_err (middle_avg ?lp) (\<lambda>al.
          bind_err (middle_std ?hp ah) (\<lambda>hs.
          bind_err (middle_std ?lp al) (\<lambda>ls.
          bind_err (avg_volume (truthy_values highPriceVolume item_data)) (\<lambda>ahv.
          bind_err (avg_volume (truthy_values lowPriceVolume item_data)) (\<lambda>alv.
          Inr (Some \<lparr>avg_high = ah, avg_low = al, high_std = hs, low_std = ls,
                      high_5th = ?hp ! index_5th (length ?hp), high_95th = ?hp ! index_95th (length ?hp),
                      low_5th = ?lp ! index_5th (length ?lp), low_95th = ?lp ! index_95th (length ?lp),
                      avg_high_5th = ah5, avg_low_5th = al5,
                      avg_high_95th = ah95, avg_low_95th = al95,
                      avg_high_volume = ahv, avg_low_volume = alv,
                      data_points = length item_data\<rparr>))))))))))) = Inr (Some h)"
    unfolding historical_stats_def Let_def using ne h l idx by simp
  then show "middle_avg ?hp = Inr (avg_high h)" and "middle_avg ?lp = Inr (avg_low h)"
    and "middle_std ?hp (avg_high h) = Inr (high_std h)"
    and "middle_std ?lp (avg_low h) = Inr (low_std h)"
    by (auto dest!: b)
qed

lemma avg_volume_returns: "\<exists>v. avg_volume vs = Inr v"
  by (simp add: avg_volume_def py_truediv_def)

lemma historical_stats_returns:
  assumes "20 \<le> length (truthy_values avgHighPrice item_data)"
    and "20 \<le> length (truthy_values avgLowPrice item_data)"
  shows "\<exists>h. historical_stats item_data = Inr (Some h)"
proof -
  let ?hp = "sort (truthy_values avgHighPrice item_data)"
  let ?lp = "sort (truthy_values avgLowPrice item_data)"
  have h: "truthy_values avgHighPrice item_data \<noteq> []"
    and l: "truthy_values avgLowPrice item_data \<noteq> []" using assms by auto
  have ne: "item_data \<noteq> []" using h by auto
  have nh: "0 < length ?hp" using h by simp
  have nl: "0 < length ?lp" using l by simp
  have hp: "?hp \<noteq> []" using h by (metis length_0_conv length_sort)
  have lp: "?lp \<noteq> []" using l by (metis length_0_conv length_sort)
  note idx = py_index_in_range [OF index_5th_less [OF nh]] py_index_in_range [OF index_95th_less [OF nh]]
    py_index_in_range [OF index_5th_less [OF nl]] py_index_in_range [OF index_95th_less [OF nl]]
  have i5: "real (index_5th (length ?hp)) \<noteq> 0" "real (index_5th (length ?lp)) \<noteq> 0"
    using assms by (simp_all add: index_5th_zero_iff)
  have i95: "real_of_int (int (length ?hp) - int (index_95th (length ?hp))) \<noteq> 0"
    "real_of_int (int (length ?lp) - int (index_95th (length ?lp))) \<noteq> 0"
    using index_95th_less [OF nh] index_95th_less [OF nl] by simp_all
  obtain ahv alv where v: "avg_volume (truthy_values highPriceVolume item_data) = Inr ahv"
    "avg_volume (truthy_values lowPriceVolume item_data) = Inr alv"
    using avg_volume_returns by blast
  show ?thesis
    unfolding historical_stats_def Let_def
    using ne h l idx i5 i95 v
    by (simp add: py_truediv_def middle_avg_value [OF hp] middle_avg_value [OF lp]
        middle_std_value [OF hp] middle_std_value [OF lp])
qed

text \<open>
  Claim C2. The specification has the reported averages be the arithmetic mean of the
  middle slice, its sum divided by the number of its elements, and the reported
  deviations be the population standard deviation of that slice. The source divides
  the sum of the slice, and the sum of the squares, by \<open>len * 0.9\<close>, not by the number
  of elements of the slice, which is \<open>floor(n * 0.95) - floor(n * 0.05)\<close>. The two
  agree exactly when 10 divides \<open>n\<close>. So for a record the source returns, the
  reported average is the mean of the slice only if 10 divides the length of the list
  or the sum of the slice is 0, and the reported deviation is the deviation of the
  slice when 10 divides the length.
\<close>

theorem middle_statistics_divide_by_nominal_count:
  assumes "historical_stats item_data = Inr (Some h)"
    and "hp = sort (truthy_values avgHighPrice item_data)"
    and "lp = sort (truthy_values avgLowPrice item_data)"
  shows "1 \<le> index_5th (length hp) \<and> 1 \<le> index_5th (length lp)
    \<and> avg_high h = real_of_int (sum_list (spec_middle_slice hp)) / (0.9 * real (length hp))
    \<and> avg_low h = real_of_int (sum_list (spec_middle_slice lp)) / (0.9 * real (length lp))
    \<and> high_std h = sqrt (sum_list (map (\<lambda>x. (real_of_int x - avg_high h) ^ 2) (spec_middle_slice hp))
                           / (0.9 * real (length hp)))
    \<and> low_std h = sqrt (sum_list (map (\<lambda>x. (real_of_int x - avg_low h) ^ 2) (spec_middle_slice lp))
                          / (0.9 * real (length lp)))
    \<and> (avg_high h = spec_mean (spec_middle_slice hp)
         \<longleftrightarrow> 10 dvd length hp \<or> sum_list (spec_middle_slice hp) = 0)
    \<and> (avg_low h = spec_mean (spec_middle_slice lp)
         \<longleftrightarrow> 10 dvd length lp \<or> sum_list (spec_middle_slice lp) = 0)
    \<and> (10 dvd length hp \<longrightarrow> high_std h = spec_population_std (spec_middle_slice hp))
    \<and> (10 dvd length lp \<longrightarrow> low_std h = spec_population_std (spec_middle_slice lp))"
proof -
  note f = historical_stats_fields [OF assms(1), folded assms(2,3)]
  have ih: "index_5th (length hp) \<noteq> 0" and il: "index_5th (length lp) \<noteq> 0"
    using f(3,4) unfolding assms(2,3) by simp_all
  then have nh: "20 \<le> length hp" and nl: "20 \<le> length lp"
    by (simp_all add: index_5th_zero_iff)
  then have h2: "2 \<le> length hp" and l2: "2 \<le> length lp" by simp_all
  have hne: "hp \<noteq> []" and lne: "lp \<noteq> []" using nh nl by auto
  have ah: "avg_high h = real_of_int (sum_list (spec_middle_slice hp)) / (0.9 * real (length hp))"
    using f(5) unfolding middle_avg_value [OF hne] by simp
  have al: "avg_low h = real_of_int (sum_list (spec_middle_slice lp)) / (0.9 * real (length lp))"
    using f(6) unfolding middle_avg_value [OF lne] by simp
  have hs: "high_std h = sqrt (sum_list (map (\<lambda>x. (real_of_int x - avg_high h) ^ 2) (spec_middle_slice hp))
                           / (0.9 * real (length hp)))"
    using f(7) unfolding middle_std_value [OF hne] by simp
  have ls: "low_std h = sqrt (sum_list (map (\<lambda>x. (real_of_int x - avg_low h) ^ 2) (spec_middle_slice lp))
                          / (0.9 * real (length lp)))"
    using f(8) unfolding middle_std_value [OF lne] by simp
  have mh: "avg_high h = spec_mean (spec_middle_slice hp)
         \<longleftrightarrow> 10 dvd length hp \<or> sum_list (spec_middle_slice hp) = 0"
    unfolding ah by (rule middle_avg_mean_iff [OF h2])
  have ml: "avg_low h = spec_mean (spec_middle_slice lp)
         \<longleftrightarrow> 10 dvd length lp \<or> sum_list (spec_middle_slice lp) = 0"
    unfolding al by (rule middle_avg_mean_iff [OF l2])
  have sh: "high_std h = spec_population_std (spec_middle_slice hp)" if d: "10 dvd length hp"
  proof -
    have "avg_high h = spec_mean (spec_middle_slice hp)" using mh d by simp
    then show ?thesis using hs middle_std_spec [OF h2 d] by simp
  qed
  have sl: "low_std h = spec_population_std (spec_middle_slice lp)" if d: "10 dvd length lp"
  proof -
    have "avg_low h = spec_mean (spec_middle_slice lp)" using ml d by simp
    then show ?thesis using ls middle_std_spec [OF l2 d] by simp
  qed
  have i1: "1 \<le> index_5th (length hp)" "1 \<le> index_5th (length lp)" using ih il by simp_all
  show ?thesis
    using i1 ah al hs ls mh ml sh sl by (intro conjI impI) assumption+
qed

lemma truthy_values_replicate:
  "f p = Some x \<Longrightarrow> x \<noteq> 0 \<Longrightarrow> truthy_values f (replicate n p) = replicate n x"
  by (induction n) simp_all

lemma sort_replicate: "sort (replicate n (x::int)) = replicate n x"
  by (induction n) (simp_all add: insort_is_Cons)

theorem middle_statistics_divide_by_nominal_count_witness:
  "\<exists>h. historical_stats
          (replicate 21 \<lparr>avgHighPrice = Some 110, avgLowPrice = Some 100,
                          highPriceVolume = Some 50, lowPriceVolume = Some 60\<rparr>) = Inr (Some h)
     \<and> spec_middle_slice (replicate 21 100) = replicate 18 100
     \<and> avg_low h = 2000 / 21
     \<and> spec_mean (spec_middle_slice (replicate 21 100)) = 100
     \<and> avg_low h \<noteq> spec_mean (spec_middle_slice (replicate 21 100))
     \<and> low_std h \<noteq> 0
     \<and> spec_population_std (spec_middle_slice (replicate 21 100)) = 0"
proof -
  let ?r = "\<lparr>avgHighPrice = Some 110, avgLowPrice = Some 100,
                          highPriceVolume = Some 50, lowPriceVolume = Some (60::int)\<rparr>"
  let ?d = "replicate 21 ?r"
  have hp: "replicate 21 110 = sort (truthy_values avgHighPrice ?d)"
    and lp: "replicate 21 100 = sort (truthy_values avgLowPrice ?d)"
    by (simp_all add: truthy_values_replicate sort_replicate)
  have "\<exists>h. historical_stats ?d = Inr (Some h)"
    by (rule historical_stats_returns) (simp_all add: truthy_values_replicate)
  then obtain h where h: "historical_stats ?d = Inr (Some h)" by blast
  note t = middle_statistics_divide_by_nominal_count [OF h hp lp]
  have slice: "spec_middle_slice (replicate 21 100) = replicate 18 100"
    by (simp add: spec_middle_slice_eq py_slice_def index_5th_div index_95th_div)
  have al: "avg_low h = 2000 / 21" using t by (simp add: slice sum_list_replicate)
  have ls: "low_std h = sqrt (sum_list (map (\<lambda>x. (real_of_int x - avg_low h) ^ 2) (replicate 18 100))
                          / (0.9 * real 21))"
    using t unfolding slice by simp
  have ls0: "low_std h \<noteq> 0" unfolding ls al by (simp add: sum_list_replicate)
  have m: "spec_mean (replicate 18 100) = 100" by (simp add: spec_mean_def sum_list_replicate)
  have s: "spec_population_std (replicate 18 100) = 0"
    unfolding spec_population_std_def m by (simp add: sum_list_replicate)
  show ?thesis using h al ls0 m s unfolding slice by auto
qed

end
